theory Spec2Isabelle
  imports Complex_Main "HOL-Library.Word"
begin

section \<open>Multi-output encoder of the AutoML multi-output notebook\<close>

text \<open>
  The notebook \<^verbatim>\<open>automl/10.auto-ml-multi-output-example.ipynb\<close> defines four functions:
  \<^verbatim>\<open>
  def multi_output_transform_x_y(X, y):
      X_new = multi_output_transformer_x(X, y.shape[1])
      y_new = multi_output_transform_y(y)
      return X_new, y_new

  def multi_output_transformer_x(X, number_of_columns_y):
      indicator_vecs = linalg.block_diag(*([np.ones((X.shape[0], 1))] * number_of_columns_y))
      if sparse.issparse(X):
          X_new = sparse.vstack(np.tile(X, number_of_columns_y))
          indicator_vecs = sparse.coo_matrix(indicator_vecs)
          X_new = sparse.hstack((X_new, indicator_vecs))
      else:
          X_new = np.tile(X, (number_of_columns_y, 1))
          X_new = np.hstack((X_new, indicator_vecs))
      return X_new

  def multi_output_transform_y(y):
      return y.reshape(-1, order="F")

  def multi_output_inverse_transform_y(y, number_of_columns_y):
      return y.reshape((-1, number_of_columns_y), order = "F")
  \<close>
  They are embedded below over a model of the array operations they call.

  Element types. An array has one element type, its dtype. The target \<open>y\<close> is only
  reshaped, which copies elements and keeps the dtype. The feature matrix \<open>X\<close> is
  stacked beside the indicator block, which \<^verbatim>\<open>np.ones\<close> creates as float64, and
  \<^verbatim>\<open>np.hstack\<close> and \<^verbatim>\<open>sparse.hstack\<close> convert their blocks to the common dtype: the
  elements of \<open>X\<close> are converted to float64. The model therefore has an element type
  \<open>'a\<close> for \<open>X\<close>, an element type \<open>'b\<close> for the stacked result, and the conversion
  \<open>cast :: 'a \<Rightarrow> 'b\<close> between them, which depends on the dtype of \<open>X\<close> and is a
  parameter of the functions that stack. Nothing is assumed about the arithmetic of either
  type: an element type only has a zero, a one and an addition, and every law that a
  theorem needs is among its hypotheses. The dtypes meant are those that numpy converts to
  float64 (booleans, integers, and floats of at most 64 bits).
\<close>

subsection \<open>Errors\<close>

text \<open>
  The two exceptions the array operations raise here: \<open>IndexError\<close> when a shape tuple
  is indexed past its end, and \<open>ValueError\<close> when shapes do not fit (a reshape to an
  impossible shape, a concatenation of blocks whose dimensions differ). The latter is the
  shape error of the specification.
\<close>

datatype error = IndexError | ValueError

subsection \<open>Dense arrays\<close>

text \<open>
  A dense array is one-dimensional (\<open>Arr1 xs\<close>, shape \<open>(length xs,)\<close>) or two-dimensional
  (\<open>Arr2 c rs\<close>, the list of its rows with the column count \<open>c\<close>, shape
  \<open>(length rs, c)\<close>; the column count is kept apart since an array may have no row).
\<close>

datatype 'a ndarray = Arr1 "'a list" | Arr2 nat "'a list list"

fun wf_ndarray :: "'a ndarray \<Rightarrow> bool" where
  "wf_ndarray (Arr1 xs) = True"
| "wf_ndarray (Arr2 c rs) = list_all (\<lambda>r. length r = c) rs"

fun shape :: "'a ndarray \<Rightarrow> nat list" where
  "shape (Arr1 xs) = [length xs]"
| "shape (Arr2 c rs) = [length rs, c]"

text \<open>Indexing a shape tuple, \<^verbatim>\<open>t[i]\<close> with \<open>i \<ge> 0\<close>.\<close>

definition tuple_index :: "nat list \<Rightarrow> nat \<Rightarrow> error + nat" where
  "tuple_index t i = (if i < length t then Inr (t ! i) else Inl IndexError)"

text \<open>
  The column count and the rows of an array read as a matrix, the way \<^verbatim>\<open>np.atleast_2d\<close>
  reads it: a vector is a matrix of one row.
\<close>

fun ncols2 :: "'a ndarray \<Rightarrow> nat" where
  "ncols2 (Arr1 xs) = length xs"
| "ncols2 (Arr2 c rs) = c"

fun rows2 :: "'a ndarray \<Rightarrow> 'a list list" where
  "rows2 (Arr1 xs) = [xs]"
| "rows2 (Arr2 c rs) = rs"

text \<open>\<^verbatim>\<open>np.ones((n, c))\<close>.\<close>

definition ones :: "nat \<Rightarrow> nat \<Rightarrow> ('a::one) ndarray" where
  "ones n c = Arr2 c (replicate n (replicate c 1))"

text \<open>
  \<^verbatim>\<open>scipy.linalg.block_diag(*arrs)\<close>: the blocks are laid out on the diagonal of a
  matrix of zeros, each block starting at the column where the one before ended. Without
  any block the result has shape \<open>(1, 0)\<close>.
\<close>

fun block_diag_rows :: "nat \<Rightarrow> nat \<Rightarrow> ('a::zero) ndarray list \<Rightarrow> 'a list list" where
  "block_diag_rows c width [] = []"
| "block_diag_rows c width (a # arrs) =
     map (\<lambda>r. replicate c 0 @ r @ replicate (width - (c + ncols2 a)) 0) (rows2 a)
     @ block_diag_rows (c + ncols2 a) width arrs"

definition block_diag :: "('a::zero) ndarray list \<Rightarrow> 'a ndarray" where
  "block_diag arrs =
     (let arrs' = (if arrs = [] then [Arr1 []] else arrs);
          width = sum_list (map ncols2 arrs')
      in Arr2 width (block_diag_rows 0 width arrs'))"

text \<open>\<^verbatim>\<open>np.tile(A, (reps, 1))\<close>: the rows of \<open>A\<close> (taken as a matrix) repeated \<open>reps\<close> times.\<close>

definition tile :: "'a ndarray \<Rightarrow> nat \<Rightarrow> 'a ndarray" where
  "tile A reps = Arr2 (ncols2 A) (concat (replicate reps (rows2 A)))"


text \<open>
  \<^verbatim>\<open>np.hstack((A, B))\<close>: vectors are concatenated; matrices are concatenated along the
  columns and must have the same number of rows. The result has the common dtype of the
  two blocks. Here \<open>B\<close> has that dtype already, and the elements of \<open>A\<close> are converted to
  it by \<open>cast\<close>.
\<close>

fun hstack :: "('a \<Rightarrow> 'b) \<Rightarrow> 'a ndarray \<Rightarrow> 'b ndarray \<Rightarrow> error + 'b ndarray" where
  "hstack cast (Arr1 xs) (Arr1 ys) = Inr (Arr1 (map cast xs @ ys))"
| "hstack cast (Arr2 c1 rs1) (Arr2 c2 rs2) =
     (if length rs1 = length rs2
      then Inr (Arr2 (c1 + c2) (map2 (\<lambda>r s. map cast r @ s) rs1 rs2))
      else Inl ValueError)"
| "hstack cast _ _ = Inl ValueError"

text \<open>The elements in column-major (Fortran) order.\<close>

fun ravel_F :: "'a ndarray \<Rightarrow> 'a list" where
  "ravel_F (Arr1 xs) = xs"
| "ravel_F (Arr2 c rs) = concat (map (\<lambda>j. map (\<lambda>r. r ! j) rs) [0..<c])"

text \<open>\<^verbatim>\<open>a.reshape(-1, order="F")\<close>.\<close>

definition reshape_F_flat :: "'a ndarray \<Rightarrow> 'a ndarray" where
  "reshape_F_flat a = Arr1 (ravel_F a)"

text \<open>
  \<^verbatim>\<open>a.reshape((-1, k), order="F")\<close>: the row count is inferred from the size, which
  must be a multiple of \<open>k\<close>; nothing can be inferred for \<open>k = 0\<close>. Element \<open>(i, j)\<close> of
  the result is element \<open>j * n + i\<close> of the column-major sequence.
\<close>

definition reshape_F_cols :: "'a ndarray \<Rightarrow> nat \<Rightarrow> error + 'a ndarray" where
  "reshape_F_cols a k =
     (let flat = ravel_F a in
      if k = 0 then Inl ValueError
      else if length flat mod k = 0
      then let n = length flat div k
           in Inr (Arr2 k (map (\<lambda>i. map (\<lambda>j. flat ! (j * n + i)) [0..<k]) [0..<n]))
      else Inl ValueError)"

subsection \<open>Sparse matrices\<close>

text \<open>
  A sparse matrix in coordinate format: its shape and the list of its stored entries
  (row, column, value), in storage order. The format allows several entries at one
  position; they add up when the matrix is made dense.
\<close>

record 'a coo_matrix =
  nrows :: nat
  ncols :: nat
  entries :: "(nat \<times> nat \<times> 'a) list"

definition wf_coo :: "'a coo_matrix \<Rightarrow> bool" where
  "wf_coo S = list_all (\<lambda>(r, c, v). r < nrows S \<and> c < ncols S) (entries S)"





text \<open>\<^verbatim>\<open>sparse.coo_matrix(A)\<close> of a dense array: its non-zero elements, row by row.\<close>

definition coo_of_dense :: "('a::zero) ndarray \<Rightarrow> 'a coo_matrix" where
  "coo_of_dense A =
     \<lparr> nrows = length (rows2 A), ncols = ncols2 A,
       entries = concat (map (\<lambda>i. concat (map (\<lambda>j.
                   if rows2 A ! i ! j \<noteq> 0 then [(i, j, rows2 A ! i ! j)] else [])
                   [0..<ncols2 A])) [0..<length (rows2 A)]) \<rparr>"

text \<open>\<^verbatim>\<open>S.astype(dtype)\<close>: every stored value converted.\<close>

fun cast_entry :: "('a \<Rightarrow> 'b) \<Rightarrow> nat \<times> nat \<times> 'a \<Rightarrow> nat \<times> nat \<times> 'b" where
  "cast_entry cast (r, c, v) = (r, c, cast v)"


text \<open>An entry moved down by \<open>dr\<close> rows and right by \<open>dc\<close> columns.\<close>

fun shift_entry :: "nat \<Rightarrow> nat \<Rightarrow> nat \<times> nat \<times> 'a \<Rightarrow> nat \<times> nat \<times> 'a" where
  "shift_entry dr dc (r, c, v) = (dr + r, dc + c, v)"

text \<open>
  \<^verbatim>\<open>sparse.vstack(blocks)\<close>: the blocks one below the other. There must be a block, and
  all blocks must have the same number of columns.
\<close>

fun vstack_entries :: "nat \<Rightarrow> 'a coo_matrix list \<Rightarrow> (nat \<times> nat \<times> 'a) list" where
  "vstack_entries off [] = []"
| "vstack_entries off (b # bs) =
     map (shift_entry off 0) (entries b) @ vstack_entries (off + nrows b) bs"

definition sparse_vstack :: "'a coo_matrix list \<Rightarrow> error + 'a coo_matrix" where
  "sparse_vstack blocks =
     (case blocks of
        [] \<Rightarrow> Inl ValueError
      | b # bs \<Rightarrow>
          if list_all (\<lambda>b'. ncols b' = ncols b) bs
          then Inr \<lparr> nrows = sum_list (map nrows blocks), ncols = ncols b,
                     entries = vstack_entries 0 blocks \<rparr>
          else Inl ValueError)"

text \<open>
  \<^verbatim>\<open>sparse.hstack((A, B))\<close>: side by side, with the same number of rows. The stored
  values are converted to the common dtype of the two blocks: \<open>B\<close> has it already, and the
  values of \<open>A\<close> are converted by \<open>cast\<close>.
\<close>

definition sparse_hstack ::
  "('a \<Rightarrow> 'b) \<Rightarrow> 'a coo_matrix \<Rightarrow> 'b coo_matrix \<Rightarrow> error + 'b coo_matrix" where
  "sparse_hstack cast A B =
     (if nrows A = nrows B
      then Inr \<lparr> nrows = nrows A, ncols = ncols A + ncols B,
                 entries = map (cast_entry cast) (entries A)
                           @ map (shift_entry 0 (ncols A)) (entries B) \<rparr>
      else Inl ValueError)"

subsection \<open>The feature matrix: dense or sparse\<close>

datatype 'a matrix_like = Dense "'a ndarray" | Sparse "'a coo_matrix"

text \<open>\<^verbatim>\<open>sparse.issparse(X)\<close>.\<close>

fun issparse :: "'a matrix_like \<Rightarrow> bool" where
  "issparse (Dense A) = False"
| "issparse (Sparse S) = True"

fun shape_of :: "'a matrix_like \<Rightarrow> nat list" where
  "shape_of (Dense A) = shape A"
| "shape_of (Sparse S) = [nrows S, ncols S]"

text \<open>\<^verbatim>\<open>X.shape[0]\<close>, which every array of at least one dimension has.\<close>

fun shape0 :: "'a matrix_like \<Rightarrow> nat" where
  "shape0 (Dense (Arr1 xs)) = length xs"
| "shape0 (Dense (Arr2 c rs)) = length rs"
| "shape0 (Sparse S) = nrows S"

fun wf_matrix :: "'a matrix_like \<Rightarrow> bool" where
  "wf_matrix (Dense A) = wf_ndarray A"
| "wf_matrix (Sparse S) = wf_coo S"



subsection \<open>The transformer functions\<close>

text \<open>
  The test \<^verbatim>\<open>sparse.issparse(X)\<close> is the case distinction on \<open>X\<close>. In the sparse branch
  \<^verbatim>\<open>np.tile(X, k)\<close> does not look into \<open>X\<close>: it yields the sequence of \<open>k\<close> references
  to \<open>X\<close>, which \<^verbatim>\<open>sparse.vstack\<close> takes as its blocks. The column count
  \<open>number_of_columns_y\<close> comes from a shape and is a natural number. Each call that can
  raise is followed by the propagation of its error, in the order of the source. The
  indicator block has the element type \<open>'b\<close> of the result (float64), and \<open>cast\<close> is the
  conversion that the two \<^verbatim>\<open>hstack\<close> calls apply to the elements of \<open>X\<close>.
\<close>

definition multi_output_transformer_x ::
  "('a \<Rightarrow> 'b) \<Rightarrow> 'a matrix_like \<Rightarrow> nat \<Rightarrow> error + ('b::{zero,one}) matrix_like" where
  "multi_output_transformer_x cast X number_of_columns_y =
     (let indicator_vecs = block_diag (replicate number_of_columns_y (ones (shape0 X) 1)) in
      case X of
        Sparse S \<Rightarrow>
          (case sparse_vstack (replicate number_of_columns_y S) of
             Inl e \<Rightarrow> Inl e
           | Inr X_new \<Rightarrow>
               (case sparse_hstack cast X_new (coo_of_dense indicator_vecs) of
                  Inl e \<Rightarrow> Inl e
                | Inr X_new' \<Rightarrow> Inr (Sparse X_new')))
      | Dense A \<Rightarrow>
          (case hstack cast (tile A number_of_columns_y) indicator_vecs of
             Inl e \<Rightarrow> Inl e
           | Inr X_new \<Rightarrow> Inr (Dense X_new)))"

definition multi_output_transform_y :: "'a ndarray \<Rightarrow> 'a ndarray" where
  "multi_output_transform_y y = reshape_F_flat y"

definition multi_output_inverse_transform_y :: "'a ndarray \<Rightarrow> nat \<Rightarrow> error + 'a ndarray" where
  "multi_output_inverse_transform_y y number_of_columns_y = reshape_F_cols y number_of_columns_y"

definition multi_output_transform_x_y ::
  "('a \<Rightarrow> 'b) \<Rightarrow> 'a matrix_like \<Rightarrow> 'c ndarray
     \<Rightarrow> error + (('b::{zero,one}) matrix_like \<times> 'c ndarray)" where
  "multi_output_transform_x_y cast X y =
     (case tuple_index (shape y) 1 of
        Inl e \<Rightarrow> Inl e
      | Inr k \<Rightarrow>
          (case multi_output_transformer_x cast X k of
             Inl e \<Rightarrow> Inl e
           | Inr X_new \<Rightarrow> Inr (X_new, multi_output_transform_y y)))"

subsection \<open>The one-hot vector of the specification\<close>


subsection \<open>Conversions to float64\<close>

text \<open>
  A finite float64 value is taken as the real number it denotes. The conversion of an
  integer keeps it when it has at most 53 significant bits, and otherwise rounds it to 53
  significant bits, to the nearest value and to the even one in a tie (no 64-bit integer
  is beyond the range of float64). An 8-bit signed integer is an \<open>8 word\<close> read by
  \<open>sint\<close>, whose addition wraps; its conversion is exact.
\<close>

fun bit_length :: "nat \<Rightarrow> nat" where
  "bit_length n = (if n = 0 then 0 else Suc (bit_length (n div 2)))"

definition float64_of_nat :: "nat \<Rightarrow> real" where
  "float64_of_nat m =
     (if bit_length m \<le> 53 then real m
      else let e = bit_length m - 53; q = m div 2 ^ e; r = m mod 2 ^ e; h = 2 ^ (e - 1)
           in real ((if h < r \<or> (r = h \<and> odd q) then q + 1 else q) * 2 ^ e))"

definition float64_of_int :: "int \<Rightarrow> real" where
  "float64_of_int i = (if i < 0 then - float64_of_nat (nat (- i)) else float64_of_nat (nat i))"


section \<open>Lists of rows\<close>

lemma length_concat_uniform:
  "\<forall>xs\<in>set xss. length xs = n \<Longrightarrow> length (concat xss) = length xss * n"
  by (induction xss) auto

lemma nth_concat_uniform:
  "\<forall>xs\<in>set xss. length xs = n \<Longrightarrow> j < length xss \<Longrightarrow> i < n
   \<Longrightarrow> concat xss ! (j * n + i) = xss ! j ! i"
proof (induction xss arbitrary: j)
  case Nil
  then show ?case by simp
next
  case (Cons xs xss)
  show ?case
  proof (cases j)
    case 0
    with Cons.prems show ?thesis by (simp add: nth_append)
  next
    case (Suc j')
    have "Suc j' * n + i = length xs + (j' * n + i)"
      using Cons.prems(1) by simp
    then have "concat (xs # xss) ! (Suc j' * n + i) = concat xss ! (j' * n + i)"
      by (simp add: nth_append)
    with Cons Suc show ?thesis by simp
  qed
qed

lemma length_ravel_F: "length (ravel_F (Arr2 k rs)) = k * length rs"
  by (simp add: length_concat_uniform [where n = "length rs"])

lemma nth_ravel_F:
  assumes "i < length rs" "j < k"
  shows "ravel_F (Arr2 k rs) ! (j * length rs + i) = rs ! i ! j"
proof -
  let ?cols = "map (\<lambda>j. map (\<lambda>r. r ! j) rs) [0..<k]"
  have "concat ?cols ! (j * length rs + i) = ?cols ! j ! i"
    by (rule nth_concat_uniform) (use assms in auto)
  with assms show ?thesis by simp
qed

lemma reshape_F_cols_ok:
  assumes "0 < k" "length (ravel_F a) = k * n"
  shows "reshape_F_cols a k =
    Inr (Arr2 k (map (\<lambda>i. map (\<lambda>j. ravel_F a ! (j * n + i)) [0..<k]) [0..<n]))"
  using assms by (simp add: reshape_F_cols_def Let_def)

lemma rows_rebuild:
  assumes "list_all (\<lambda>r. length r = k) rs"
  shows "map (\<lambda>i. map (\<lambda>j. rs ! i ! j) [0..<k]) [0..<length rs] = rs"
proof (rule nth_equalityI)
  show "length (map (\<lambda>i. map (\<lambda>j. rs ! i ! j) [0..<k]) [0..<length rs]) = length rs" by simp
next
  fix i assume "i < length (map (\<lambda>i. map (\<lambda>j. rs ! i ! j) [0..<k]) [0..<length rs])"
  then have i: "i < length rs" by simp
  with assms have "length (rs ! i) = k" by (simp add: list_all_length)
  then have "map (\<lambda>j. rs ! i ! j) [0..<k] = rs ! i" using map_nth [of "rs ! i"] by simp
  with i show "map (\<lambda>i. map (\<lambda>j. rs ! i ! j) [0..<k]) [0..<length rs] ! i = rs ! i" by simp
qed

lemma inverse_of_transform_y:
  assumes "wf_ndarray (Arr2 k rs)" "0 < k"
  shows "multi_output_inverse_transform_y (multi_output_transform_y (Arr2 k rs)) k = Inr (Arr2 k rs)"
proof -
  let ?flat = "ravel_F (Arr2 k rs)"
  have "map (\<lambda>i. map (\<lambda>j. ?flat ! (j * length rs + i)) [0..<k]) [0..<length rs]
        = map (\<lambda>i. map (\<lambda>j. rs ! i ! j) [0..<k]) [0..<length rs]"
    by (rule map_cong [OF refl], rule map_cong [OF refl]) (simp add: nth_ravel_F del: ravel_F.simps)
  also have "\<dots> = rs" using assms(1) by (simp add: rows_rebuild)
  finally have rows: "map (\<lambda>i. map (\<lambda>j. ?flat ! (j * length rs + i)) [0..<k]) [0..<length rs] = rs" .
  have "reshape_F_cols (Arr1 ?flat) k = Inr (Arr2 k (map (\<lambda>i. map (\<lambda>j. ravel_F (Arr1 ?flat) ! (j * length rs + i)) [0..<k]) [0..<length rs]))"
    by (rule reshape_F_cols_ok [OF assms(2)]) (simp add: length_ravel_F del: ravel_F.simps(2))
  with rows show ?thesis
    by (simp add: multi_output_inverse_transform_y_def multi_output_transform_y_def
        reshape_F_flat_def del: ravel_F.simps(2))
qed

section \<open>The indicator block and the stacked dense matrix\<close>

lemma length_block_diag_rows_ones:
  "length (block_diag_rows c w (replicate k (ones n 1))) = k * n"
  by (induction k arbitrary: c) (simp_all add: ones_def)

lemma nth_block_diag_rows_ones:
  "p < k * n \<Longrightarrow>
   block_diag_rows c w (replicate k (ones n 1 :: 'a::{zero,one} ndarray)) ! p
     = replicate (c + p div n) 0 @ [1] @ replicate (w - (c + p div n + 1)) 0"
proof (induction k arbitrary: c p)
  case 0
  then show ?case by simp
next
  case (Suc k)
  have n: "0 < n" using Suc.prems by (cases n) auto
  show ?case
  proof (cases "p < n")
    case True
    then show ?thesis by (simp add: ones_def nth_append)
  next
    case False
    then have q: "p - n < k * n" using Suc.prems by simp
    have d: "p div n = Suc ((p - n) div n)"
      using False n by (simp add: le_div_geq)
    have "block_diag_rows c w (replicate (Suc k) (ones n 1 :: 'a ndarray)) ! p
          = block_diag_rows (c + 1) w (replicate k (ones n 1)) ! (p - n)"
      using False by (simp add: ones_def nth_append)
    also have "\<dots> = replicate (c + 1 + (p - n) div n) 0 @ [1]
                     @ replicate (w - (c + 1 + (p - n) div n + 1)) 0"
      by (rule Suc.IH [OF q])
    finally show ?thesis by (simp add: d)
  qed
qed

lemma block_diag_replicate_ones:
  "0 < k \<Longrightarrow> block_diag (replicate k (ones n 1))
     = Arr2 k (block_diag_rows 0 k (replicate k (ones n 1)))"
proof -
  assume k: "0 < k"
  have "sum_list (map ncols2 (replicate k (ones n 1 :: 'a ndarray))) = k"
    by (induction k) (simp_all add: ones_def)
  moreover have "replicate k (ones n 1 :: 'a ndarray) \<noteq> []" using k by simp
  ultimately show ?thesis by (simp add: block_diag_def Let_def)
qed

lemma length_tile_rows: "length (concat (replicate k rs)) = k * length rs"
  by (induction k) simp_all

lemma nth_tile_rows:
  assumes "p < k * length rs"
  shows "concat (replicate k rs) ! p = rs ! (p mod length rs)"
proof -
  have n: "0 < length rs" using assms by (cases rs) auto
  have "p div length rs < k"
    using assms n by (simp add: less_mult_imp_div_less)
  then have "concat (replicate k rs) ! (p div length rs * length rs + p mod length rs)
        = replicate k rs ! (p div length rs) ! (p mod length rs)"
    using n by (intro nth_concat_uniform) auto
  then show ?thesis using \<open>p div length rs < k\<close> by simp
qed

lemma map2_cast_append:
  "map2 (\<lambda>r s. map cast r @ s) rs ss = map2 (@) (map (map cast) rs) ss"
  by (induction rs arbitrary: ss) (auto split: list.splits simp: zip_Cons1)

lemma map_concat_replicate:
  "map g (concat (replicate k rs)) = concat (replicate k (map g rs))"
  by (induction k) simp_all

lemma transformer_x_dense:
  assumes "0 < k"
  shows "multi_output_transformer_x cast (Dense (Arr2 f rs)) k
    = Inr (Dense (Arr2 (f + k)
        (map2 (@) (concat (replicate k (map (map cast) rs)))
                  (block_diag_rows 0 k (replicate k (ones (length rs) 1))))))"
  using assms
  by (simp add: multi_output_transformer_x_def block_diag_replicate_ones tile_def
      length_tile_rows length_block_diag_rows_ones map2_cast_append map_concat_replicate
      del: One_nat_def)

lemma sum_list_nrows_replicate: "sum_list (map nrows (replicate k S)) = k * nrows S"
  by (induction k) simp_all

lemma sparse_vstack_replicate:
  "0 < k \<Longrightarrow> sparse_vstack (replicate k S)
     = Inr \<lparr> nrows = k * nrows S, ncols = ncols S, entries = vstack_entries 0 (replicate k S) \<rparr>"
proof -
  assume "0 < k"
  then obtain k' where k: "k = Suc k'" by (cases k) auto
  have "list_all (\<lambda>b'. ncols b' = ncols S) (replicate k' S)"
    by (simp add: list_all_length)
  then have "sparse_vstack (S # replicate k' S)
     = Inr \<lparr> nrows = sum_list (map nrows (S # replicate k' S)), ncols = ncols S,
              entries = vstack_entries 0 (S # replicate k' S) \<rparr>"
    by (simp add: sparse_vstack_def)
  then show ?thesis
    using sum_list_nrows_replicate [of "Suc k'" S] by (simp add: k)
qed

section \<open>Entries of sparse matrices\<close>











section \<open>The indicator block\<close>

lemma wf_indicator:
  "list_all (\<lambda>r. length r = k)
     (block_diag_rows 0 k (replicate k (ones n 1 :: 'a::{zero,one} ndarray)))"
proof -
  have "length (block_diag_rows 0 k (replicate k (ones n 1 :: 'a ndarray)) ! p) = k"
    if "p < k * n" for p
  proof -
    have "0 < n" using that by (cases n) auto
    then have "p div n < k" using that by (simp add: less_mult_imp_div_less)
    then show ?thesis by (simp add: nth_block_diag_rows_ones [OF that] del: One_nat_def)
  qed
  then show ?thesis
    by (simp add: list_all_length length_block_diag_rows_ones del: One_nat_def)
qed






section \<open>The sparse branch and the dense array of its result\<close>

lemma transformer_x_sparse:
  assumes "0 < k"
  shows "multi_output_transformer_x cast (Sparse S) k
    = Inr (Sparse \<lparr> nrows = k * nrows S, ncols = ncols S + k,
             entries = map (cast_entry cast) (vstack_entries 0 (replicate k S))
               @ map (shift_entry 0 (ncols S))
                   (entries (coo_of_dense
                      (Arr2 k (block_diag_rows 0 k (replicate k (ones (nrows S) 1)))))) \<rparr>)"
  using assms
  by (simp add: multi_output_transformer_x_def block_diag_replicate_ones
      sparse_vstack_replicate sparse_hstack_def coo_of_dense_def
      length_block_diag_rows_ones del: One_nat_def)


section \<open>Rows of the stacked matrix\<close>


lemma transform_x_y_Arr2:
  "multi_output_transform_x_y cast X (Arr2 k rs)
     = (case multi_output_transformer_x cast X k of
          Inl e \<Rightarrow> Inl e
        | Inr X_new \<Rightarrow> Inr (X_new, Arr1 (ravel_F (Arr2 k rs))))"
  by (simp add: multi_output_transform_x_y_def tuple_index_def multi_output_transform_y_def
      reshape_F_flat_def split: sum.splits del: ravel_F.simps)

lemma transformer_x_succeeds:
  assumes "shape_of X = [n, f]" "0 < k"
  shows "\<exists>X'. multi_output_transformer_x cast X k = Inr X' \<and> issparse X' = issparse X
           \<and> shape_of X' = [k * n, f + k]"
proof (cases X)
  case (Dense A)
  with assms(1) obtain rs where A: "A = Arr2 f rs" and n: "length rs = n"
    by (cases A) auto
  show ?thesis
    using transformer_x_dense [OF assms(2), of cast f rs]
    by (simp add: Dense A n length_tile_rows length_block_diag_rows_ones del: One_nat_def)
next
  case (Sparse S)
  with assms show ?thesis
    using transformer_x_sparse [OF assms(2), of cast S] by simp
qed

section \<open>Well-formedness of the stacked matrix\<close>


lemma wf_stacked_rows:
  assumes "list_all (\<lambda>r. length r = f) rs"
  shows "list_all (\<lambda>r. length r = f + k)
     (map2 (@) (concat (replicate k rs))
        (block_diag_rows 0 k (replicate k (ones (length rs) 1 :: 'a::{zero,one} ndarray))))"
proof -
  define ind where "ind = block_diag_rows 0 k (replicate k (ones (length rs) 1 :: 'a ndarray))"
  have len_ind: "length ind = k * length rs"
    unfolding ind_def by (rule length_block_diag_rows_ones)
  have "length (map2 (@) (concat (replicate k rs)) ind ! p) = f + k"
    if "p < k * length rs" for p
  proof -
    have n: "0 < length rs" using that by (cases rs) auto
    have "length (ind ! p) = k"
      using wf_indicator [of k "length rs", where 'a = 'a] that len_ind
      unfolding ind_def by (simp add: list_all_length del: One_nat_def)
    moreover have "length (concat (replicate k rs) ! p) = f"
      using assms n by (simp add: nth_tile_rows [OF that] list_all_length)
    ultimately show ?thesis using that by (simp add: length_tile_rows len_ind)
  qed
  then show ?thesis
    unfolding ind_def [symmetric] by (simp add: list_all_length length_tile_rows len_ind)
qed

lemma wf_vstack_entries:
  assumes "wf_coo S"
  shows "list_all (\<lambda>(r, c, v). r < off + k * nrows S \<and> c < ncols S)
           (vstack_entries off (replicate k S))"
proof (induction k arbitrary: off)
  case 0
  then show ?case by simp
next
  case (Suc k)
  have "list_all (\<lambda>(r, c, v). r < off + Suc k * nrows S \<and> c < ncols S)
          (map (shift_entry off 0) (entries S))"
    using assms by (auto simp: wf_coo_def list_all_iff)
  moreover have "list_all (\<lambda>(r, c, v). r < off + Suc k * nrows S \<and> c < ncols S)
          (vstack_entries (off + nrows S) (replicate k S))"
    using Suc.IH [of "off + nrows S"] by (simp add: add.assoc)
  ultimately show ?case by simp
qed

lemma wf_coo_of_dense:
  "list_all (\<lambda>(r, c, v). r < length rs \<and> c < cc) (entries (coo_of_dense (Arr2 cc rs)))"
  by (auto simp: coo_of_dense_def list_all_iff split: if_splits)

lemma wf_transformer_x:
  fixes X :: "'a matrix_like" and cast :: "'a \<Rightarrow> 'b::{zero,one}"
  assumes "shape_of X = [n, f]" "wf_matrix X" "0 < k"
    and "multi_output_transformer_x cast X k = Inr X'"
  shows "wf_matrix X'"
proof (cases X)
  case (Dense A)
  with assms(1) obtain rs where A: "A = Arr2 f rs" and n: "length rs = n"
    by (cases A) auto
  define crs where "crs = map (map cast) rs"
  have "list_all (\<lambda>r. length r = f) crs"
    using assms(2) by (simp add: Dense A crs_def list_all_iff)
  then have "wf_ndarray (Arr2 (f + k) (map2 (@) (concat (replicate k crs))
        (block_diag_rows 0 k (replicate k (ones (length crs) 1 :: 'b ndarray)))))"
    using wf_stacked_rows [of f crs k] by (simp del: One_nat_def)
  moreover have "X' = Dense (Arr2 (f + k) (map2 (@) (concat (replicate k crs))
        (block_diag_rows 0 k (replicate k (ones (length crs) 1)))))"
    using assms(4) unfolding Dense A transformer_x_dense [OF assms(3)] crs_def by simp
  ultimately show ?thesis by (simp del: One_nat_def)
next
  case (Sparse S)
  with assms(2) have wf: "wf_coo S" by simp
  define ind where "ind = block_diag_rows 0 k (replicate k (ones (nrows S) 1 :: 'b ndarray))"
  have len_ind: "length ind = k * nrows S"
    unfolding ind_def by (rule length_block_diag_rows_ones)
  have X': "X' = Sparse \<lparr> nrows = k * nrows S, ncols = ncols S + k,
       entries = map (cast_entry cast) (vstack_entries 0 (replicate k S))
         @ map (shift_entry 0 (ncols S)) (entries (coo_of_dense (Arr2 k ind))) \<rparr>"
    using assms(4) unfolding Sparse transformer_x_sparse [OF assms(3)] ind_def by simp
  have "list_all (\<lambda>(r, c, v). r < k * nrows S \<and> c < ncols S + k)
          (map (cast_entry cast) (vstack_entries 0 (replicate k S)))"
    using wf_vstack_entries [OF wf, of 0 k] by (auto simp: list_all_iff)
  moreover have "list_all (\<lambda>(r, c, v). r < k * nrows S \<and> c < ncols S + k)
          (map (shift_entry 0 (ncols S)) (entries (coo_of_dense (Arr2 k ind))))"
    using wf_coo_of_dense [of ind k] by (auto simp: list_all_iff len_ind)
  ultimately show ?thesis by (simp add: X' wf_coo_def)
qed

section \<open>Properties of the conversion of integers to float64\<close>

lemma bit_length_le_iff: "bit_length m \<le> b \<longleftrightarrow> m < 2 ^ b"
proof (induction m arbitrary: b rule: bit_length.induct)
  case (1 n)
  show ?case
  proof (cases "n = 0")
    case True
    then show ?thesis by simp
  next
    case False
    show ?thesis
    proof (cases b)
      case 0
      with False show ?thesis by (simp del: bit_length.simps add: bit_length.simps [of n])
    next
      case (Suc b')
      have "bit_length n \<le> Suc b' \<longleftrightarrow> bit_length (n div 2) \<le> b'"
        using False by (simp del: bit_length.simps add: bit_length.simps [of n])
      also have "\<dots> \<longleftrightarrow> n div 2 < 2 ^ b'" by (rule "1.IH" [OF False])
      also have "\<dots> \<longleftrightarrow> n < 2 ^ Suc b'" by (simp add: less_mult_imp_div_less div_less_iff_less_mult mult.commute)
      finally show ?thesis by (simp add: Suc)
    qed
  qed
qed

lemma float64_of_int_exact:
  assumes "\<bar>i\<bar> < 2 ^ 53"
  shows "float64_of_int i = real_of_int i"
proof -
  have "bit_length (nat \<bar>i\<bar>) \<le> 53"
    using assms by (simp add: bit_length_le_iff nat_less_iff del: bit_length.simps)
  then have "float64_of_nat (nat \<bar>i\<bar>) = real (nat \<bar>i\<bar>)"
    by (simp add: float64_of_nat_def del: bit_length.simps)
  then show ?thesis
    by (cases "i < 0") (simp_all add: float64_of_int_def abs_if del: bit_length.simps)
qed


section \<open>The claims\<close>

text \<open>
  Claim C1 (round trip). For a dense target matrix \<open>Y\<close> with \<open>n \<ge> 1\<close> rows and
  \<open>k \<ge> 1\<close> columns and a feature matrix \<open>X\<close> with \<open>n\<close> rows, the forward transform
  succeeds, and the inverse transform with the same \<open>k\<close> applied to the flattened target
  it produced returns \<open>Y\<close> itself, element for element.
\<close>

theorem round_trip:
  assumes "wf_ndarray (Arr2 k rs)" and "0 < k" and "0 < length rs"
    and "shape_of X = [length rs, f]"
  shows "\<exists>X' y'. multi_output_transform_x_y cast X (Arr2 k rs) = Inr (X', y')
           \<and> multi_output_inverse_transform_y y' k = Inr (Arr2 k rs)"
proof -
  obtain X' where "multi_output_transformer_x cast X k = Inr X'"
    using transformer_x_succeeds [OF assms(4) assms(2)] by blast
  then have "multi_output_transform_x_y cast X (Arr2 k rs)
      = Inr (X', multi_output_transform_y (Arr2 k rs))"
    by (simp add: transform_x_y_Arr2 multi_output_transform_y_def reshape_F_flat_def
        del: ravel_F.simps)
  moreover have "multi_output_inverse_transform_y (multi_output_transform_y (Arr2 k rs)) k
      = Inr (Arr2 k rs)"
    by (rule inverse_of_transform_y [OF assms(1) assms(2)])
  ultimately show ?thesis by blast
qed

text \<open>
  The round trip of C1 on a two by two target.
\<close>

theorem round_trip_witness:
  "wf_ndarray (Arr2 2 [[10, 100], [20, 200 :: int]])
   \<and> shape_of (Dense (Arr2 1 [[1], [2 :: int]])) = [length [[10, 100], [20, 200 :: int]], 1]
   \<and> (\<exists>X' y'. multi_output_transform_x_y float64_of_int (Dense (Arr2 1 [[1], [2]]))
                   (Arr2 2 [[10, 100], [20, 200 :: int]]) = Inr (X', y')
         \<and> multi_output_inverse_transform_y y' 2 = Inr (Arr2 2 [[10, 100], [20, 200]]))"
proof -
  have h1: "wf_ndarray (Arr2 2 [[10, 100], [20, 200 :: int]])" by simp
  have h2: "(0::nat) < 2" by simp
  have h3: "0 < length [[10, 100], [20, 200 :: int]]" by simp
  have h4: "shape_of (Dense (Arr2 1 [[1], [2 :: int]])) = [length [[10, 100], [20, 200 :: int]], 1]"
    by simp
  show ?thesis by (rule conjI [OF h1 conjI [OF h4 round_trip [OF h1 h2 h3 h4]]])
qed

text \<open>
  Claim C2 says that the forward transform fails when \<open>X\<close> and \<open>Y\<close> have different
  numbers of rows. The code never compares the two: with three rows in \<open>X\<close> and two in
  \<open>Y\<close> it returns a stacked matrix of six rows and a flat target of four elements.
\<close>

theorem row_mismatch_counterexample:
  "shape_of (Dense (Arr2 1 [[1], [2], [3 :: int]])) = [3, 1]
   \<and> shape (Arr2 2 [[10, 100], [20, 200 :: int]]) = [2, 2]
   \<and> multi_output_transform_x_y float64_of_int (Dense (Arr2 1 [[1], [2], [3]]))
         (Arr2 2 [[10, 100], [20, 200 :: int]])
       = Inr (Dense (Arr2 3 [[1, 1, 0], [2, 1, 0], [3, 1, 0], [1, 0, 1], [2, 0, 1], [3, 0, 1]]),
              Arr1 [10, 20, 100, 200])"
proof -
  have "multi_output_transformer_x float64_of_int (Dense (Arr2 1 [[1], [2], [3]])) 2
      = Inr (Dense (Arr2 3 [[1, 1, 0], [2, 1, 0], [3, 1, 0], [1, 0, 1], [2, 0, 1], [3, 0, 1]]))"
    by (simp add: multi_output_transformer_x_def block_diag_def ones_def tile_def Let_def
        numeral_2_eq_2 numeral_3_eq_3 float64_of_int_exact)
  then show ?thesis
    by (simp add: transform_x_y_Arr2 numeral_2_eq_2)
qed

text \<open>
  Claim C2 as amended. For every two-dimensional \<open>X\<close> (dense or sparse) with \<open>n\<close> rows
  and \<open>f\<close> columns and every dense \<open>Y\<close> with \<open>m\<close> rows and \<open>k \<ge> 1\<close> columns, whether
  or not \<open>n = m\<close>, the forward transform raises no error: it returns a stacked matrix
  of shape \<open>(n * k, f + k)\<close> and a flat target of length \<open>m * k\<close>.
\<close>

theorem row_counts_not_compared:
  assumes "shape_of X = [n, f]" and "length rs = m" and "0 < k"
  shows "\<exists>X' y'. multi_output_transform_x_y cast X (Arr2 k rs) = Inr (X', Arr1 y')
           \<and> shape_of X' = [n * k, f + k] \<and> length y' = m * k"
proof -
  obtain X' where X': "multi_output_transformer_x cast X k = Inr X'"
      "shape_of X' = [k * n, f + k]"
    using transformer_x_succeeds [OF assms(1) assms(3)] by blast
  then have "multi_output_transform_x_y cast X (Arr2 k rs)
      = Inr (X', Arr1 (ravel_F (Arr2 k rs)))"
    by (simp add: transform_x_y_Arr2 del: ravel_F.simps)
  moreover have "length (ravel_F (Arr2 k rs)) = m * k"
    using assms(2) by (simp add: length_ravel_F mult.commute del: ravel_F.simps)
  ultimately show ?thesis using X'(2) by (simp add: mult.commute del: ravel_F.simps)
qed

text \<open>
  The amended C2 at the input with three and two rows.
\<close>

theorem row_counts_not_compared_witness:
  "shape_of (Dense (Arr2 1 [[1], [2], [3 :: int]])) = [3, 1]
   \<and> length [[10, 100], [20, 200 :: int]] = 2 \<and> 3 \<noteq> (2 :: nat)
   \<and> (\<exists>X' y'. multi_output_transform_x_y float64_of_int (Dense (Arr2 1 [[1], [2], [3]]))
                   (Arr2 2 [[10, 100], [20, 200 :: int]]) = Inr (X', Arr1 y')
         \<and> shape_of X' = [3 * 2, 1 + 2] \<and> length y' = 2 * 2)"
proof -
  have h1: "shape_of (Dense (Arr2 1 [[1], [2], [3 :: int]])) = [3, 1]" by simp
  have h2: "length [[10, 100], [20, 200 :: int]] = 2" by simp
  have h3: "(0::nat) < 2" by simp
  have h4: "3 \<noteq> (2 :: nat)" by simp
  show ?thesis
    by (rule conjI [OF h1 conjI [OF h2 conjI [OF h4 row_counts_not_compared [OF h1 h2 h3]]]])
qed

text \<open>
  Claim C3 (shape invariant). For \<open>X\<close> of shape \<open>(n, f)\<close> and \<open>Y\<close> of shape \<open>(n, k)\<close>
  with \<open>n, f, k \<ge> 1\<close> the forward transform returns a stacked matrix with exactly
  \<open>n * k\<close> rows and \<open>f + k\<close> columns (every row has that length, every sparse entry
  lies within that shape) and a flat target of length \<open>n * k\<close>.
\<close>

theorem shape_invariant:
  fixes X :: "'a matrix_like" and cast :: "'a \<Rightarrow> 'b::{zero,one}"
  assumes "shape_of X = [n, f]" and "wf_matrix X" and "shape Y = [n, k]"
    and "0 < n" and "0 < f" and "0 < k"
  shows "\<exists>X' y'. multi_output_transform_x_y cast X Y = Inr (X', Arr1 y')
           \<and> shape_of X' = [n * k, f + k] \<and> wf_matrix X' \<and> length y' = n * k"
proof -
  obtain rs where Y: "Y = Arr2 k rs" and n: "length rs = n"
    using assms(3) by (cases Y) auto
  obtain X' where X': "multi_output_transformer_x cast X k = Inr X'"
      "shape_of X' = [k * n, f + k]"
    using transformer_x_succeeds [OF assms(1) assms(6)] by blast
  have "wf_matrix X'"
    by (rule wf_transformer_x [OF assms(1) assms(2) assms(6) X'(1)])
  moreover have "multi_output_transform_x_y cast X Y = Inr (X', Arr1 (ravel_F (Arr2 k rs)))"
    using X'(1) by (simp add: Y transform_x_y_Arr2 del: ravel_F.simps)
  moreover have "length (ravel_F (Arr2 k rs)) = n * k"
    by (simp add: length_ravel_F n mult.commute del: ravel_F.simps)
  ultimately show ?thesis using X'(2) by (simp add: mult.commute del: ravel_F.simps)
qed

text \<open>
  C3 at the two by one feature matrix and the two by two target.
\<close>

theorem shape_invariant_witness:
  "shape_of (Dense (Arr2 1 [[1], [2 :: int]])) = [2, 1]
   \<and> wf_matrix (Dense (Arr2 1 [[1], [2 :: int]]))
   \<and> shape (Arr2 2 [[10, 100], [20, 200 :: int]]) = [2, 2]
   \<and> (\<exists>X' y'. multi_output_transform_x_y float64_of_int (Dense (Arr2 1 [[1], [2]]))
                   (Arr2 2 [[10, 100], [20, 200 :: int]]) = Inr (X', Arr1 y')
         \<and> shape_of X' = [2 * 2, 1 + 2] \<and> wf_matrix X' \<and> length y' = 2 * 2)"
proof -
  have h1: "shape_of (Dense (Arr2 1 [[1], [2 :: int]])) = [2, 1]" by simp
  have h2: "wf_matrix (Dense (Arr2 1 [[1], [2 :: int]]))" by simp
  have h3: "shape (Arr2 2 [[10, 100], [20, 200 :: int]]) = [2, 2]" by simp
  have h4: "(0::nat) < 2" by simp
  have h5: "(0::nat) < 1" by simp
  show ?thesis
    by (rule conjI [OF h1 conjI [OF h2 conjI [OF h3 shape_invariant [OF h1 h2 h3 h4 h5 h4]]]])
qed




text \<open>
  Claim C5 (column-major flattening). For \<open>Y\<close> of shape \<open>(n, k)\<close> the flat target has
  length \<open>n * k\<close> and its element \<open>j * n + i\<close> is \<open>Y[i][j]\<close>; and for a flat \<open>y_pred\<close>
  of length \<open>n * k\<close> with \<open>k \<ge> 1\<close> the inverse transform returns a matrix of \<open>n\<close> rows
  and \<open>k\<close> columns whose element \<open>(i, j)\<close> is \<open>y_pred[j * n + i]\<close>.
\<close>

theorem column_major_correspondence:
  "(\<exists>ys'. multi_output_transform_y (Arr2 k rs) = Arr1 ys' \<and> length ys' = length rs * k
       \<and> (\<forall>i<length rs. \<forall>j<k. ys' ! (j * length rs + i) = rs ! i ! j))
   \<and> (0 < k \<and> length ys = n * k \<longrightarrow>
       (\<exists>rows. multi_output_inverse_transform_y (Arr1 ys) k = Inr (Arr2 k rows)
          \<and> length rows = n \<and> (\<forall>i<n. length (rows ! i) = k)
          \<and> (\<forall>i<n. \<forall>j<k. rows ! i ! j = ys ! (j * n + i))))"
proof (intro conjI impI)
  have "multi_output_transform_y (Arr2 k rs) = Arr1 (ravel_F (Arr2 k rs))"
    by (simp add: multi_output_transform_y_def reshape_F_flat_def del: ravel_F.simps)
  moreover have "length (ravel_F (Arr2 k rs)) = length rs * k"
    by (simp add: length_ravel_F mult.commute del: ravel_F.simps)
  moreover have "\<forall>i<length rs. \<forall>j<k. ravel_F (Arr2 k rs) ! (j * length rs + i) = rs ! i ! j"
    by (simp add: nth_ravel_F del: ravel_F.simps)
  ultimately show "\<exists>ys'. multi_output_transform_y (Arr2 k rs) = Arr1 ys'
      \<and> length ys' = length rs * k
      \<and> (\<forall>i<length rs. \<forall>j<k. ys' ! (j * length rs + i) = rs ! i ! j)"
    by blast
next
  assume a: "0 < k \<and> length ys = n * k"
  then have "reshape_F_cols (Arr1 ys) k
      = Inr (Arr2 k (map (\<lambda>i. map (\<lambda>j. ravel_F (Arr1 ys) ! (j * n + i)) [0..<k]) [0..<n]))"
    by (intro reshape_F_cols_ok) (simp_all add: mult.commute)
  then show "\<exists>rows. multi_output_inverse_transform_y (Arr1 ys) k = Inr (Arr2 k rows)
      \<and> length rows = n \<and> (\<forall>i<n. length (rows ! i) = k)
      \<and> (\<forall>i<n. \<forall>j<k. rows ! i ! j = ys ! (j * n + i))"
    by (simp add: multi_output_inverse_transform_y_def)
qed

text \<open>
  C5 on a two by two target and on a flat vector of six elements.
\<close>

theorem column_major_correspondence_witness:
  "(\<exists>ys'. multi_output_transform_y (Arr2 2 [[10, 100], [20, 200 :: int]]) = Arr1 ys'
       \<and> length ys' = length [[10, 100], [20, 200 :: int]] * 2
       \<and> (\<forall>i<length [[10, 100], [20, 200 :: int]]. \<forall>j<2.
             ys' ! (j * length [[10, 100], [20, 200 :: int]] + i)
               = [[10, 100], [20, 200]] ! i ! j))
   \<and> (0 < (2::nat) \<and> length [1, 2, 3, 4, 5, 6 :: int] = 3 * 2)
   \<and> (\<exists>rows. multi_output_inverse_transform_y (Arr1 [1, 2, 3, 4, 5, 6 :: int]) 2
                 = Inr (Arr2 2 rows)
          \<and> length rows = 3 \<and> (\<forall>i<3. length (rows ! i) = 2)
          \<and> (\<forall>i<3. \<forall>j<2. rows ! i ! j = [1, 2, 3, 4, 5, 6] ! (j * 3 + i)))"
proof -
  note c = column_major_correspondence
    [of 2 "[[10, 100], [20, 200 :: int]]" "[1, 2, 3, 4, 5, 6 :: int]" 3]
  have h: "0 < (2::nat) \<and> length [1, 2, 3, 4, 5, 6 :: int] = 3 * 2" by simp
  show ?thesis
    by (rule conjI [OF conjunct1 [OF c] conjI [OF h mp [OF conjunct2 [OF c] h]]])
qed

text \<open>
  Claim C6. When the length of the flat input is not divisible by \<open>k \<ge> 1\<close>, the inverse
  transform raises the shape error (\<^verbatim>\<open>ValueError\<close> of the reshape) and returns nothing.
\<close>

theorem inverse_not_divisible:
  assumes "0 < k" and "length ys mod k \<noteq> 0"
  shows "multi_output_inverse_transform_y (Arr1 ys) k = Inl ValueError"
  using assms by (simp add: multi_output_inverse_transform_y_def reshape_F_cols_def)

text \<open>
  C6 at a vector of length five and \<open>k = 2\<close>.
\<close>

theorem inverse_not_divisible_witness:
  "0 < (2::nat) \<and> length [1, 2, 3, 4, 5 :: int] mod 2 \<noteq> 0
   \<and> multi_output_inverse_transform_y (Arr1 [1, 2, 3, 4, 5 :: int]) 2 = Inl ValueError"
proof -
  have h1: "0 < (2::nat)" by simp
  have h2: "length [1, 2, 3, 4, 5 :: int] mod 2 \<noteq> 0" by simp
  show ?thesis by (rule conjI [OF h1 conjI [OF h2 inverse_not_divisible [OF h1 h2]]])
qed




text \<open>
  Claim C8 (worked example). For \<open>X = [[1],[2]]\<close> and \<open>Y = [[10,100],[20,200]]\<close> the
  forward transform returns the rows \<open>[1,1,0], [2,1,0], [1,0,1], [2,0,1]\<close> and the flat
  target \<open>[10,20,100,200]\<close>, and the inverse transform of that target with \<open>k = 2\<close>
  returns \<open>[[10,100],[20,200]]\<close>.
\<close>

theorem worked_example:
  "multi_output_transform_x_y float64_of_int (Dense (Arr2 1 [[1], [2]]))
       (Arr2 2 [[10, 100], [20, 200 :: int]])
     = Inr (Dense (Arr2 3 [[1, 1, 0], [2, 1, 0], [1, 0, 1], [2, 0, 1]]),
            Arr1 [10, 20, 100, 200])
   \<and> multi_output_inverse_transform_y (Arr1 [10, 20, 100, 200 :: int]) 2
     = Inr (Arr2 2 [[10, 100], [20, 200]])"
proof -
  have "multi_output_transformer_x float64_of_int (Dense (Arr2 1 [[1], [2]])) 2
      = Inr (Dense (Arr2 3 [[1, 1, 0], [2, 1, 0], [1, 0, 1], [2, 0, 1]]))"
    by (simp add: multi_output_transformer_x_def block_diag_def ones_def tile_def Let_def
        numeral_2_eq_2 float64_of_int_exact)
  then have "multi_output_transform_x_y float64_of_int (Dense (Arr2 1 [[1], [2]]))
       (Arr2 2 [[10, 100], [20, 200 :: int]])
     = Inr (Dense (Arr2 3 [[1, 1, 0], [2, 1, 0], [1, 0, 1], [2, 0, 1]]),
            Arr1 [10, 20, 100, 200])"
    by (simp add: transform_x_y_Arr2 numeral_2_eq_2)
  moreover have "multi_output_inverse_transform_y (Arr1 [10, 20, 100, 200 :: int]) 2
     = Inr (Arr2 2 [[10, 100], [20, 200]])"
    by code_simp
  ultimately show ?thesis by (rule conjI)
qed

text \<open>
  Claim C9 (noninterference of the feature side). For every \<open>X\<close> and any two target
  matrices with the same number of columns \<open>k\<close>, whatever their rows, the forward
  transform yields the same stacked feature matrix (or fails with the same error).
\<close>

theorem features_depend_on_column_count_only:
  "map_sum id fst (multi_output_transform_x_y cast X (Arr2 k rs1))
     = map_sum id fst (multi_output_transform_x_y cast X (Arr2 k rs2))"
  by (simp add: transform_x_y_Arr2 split: sum.splits del: ravel_F.simps)

text \<open>
  Claim C10 (two-dimensional target required). For a one-dimensional target the forward
  transform raises \<^verbatim>\<open>IndexError\<close> at \<^verbatim>\<open>y.shape[1]\<close>, whatever \<open>X\<close> is; the
  single-output case is accepted when the target is given as a matrix of one column.
\<close>

theorem one_dimensional_target_rejected:
  "multi_output_transform_x_y cast X (Arr1 ys) = Inl IndexError
   \<and> (length (shape_of X) = 2 \<longrightarrow>
        (\<exists>X'. multi_output_transform_x_y cast X (Arr2 1 rs)
                 = Inr (X', Arr1 (map (\<lambda>r. r ! 0) rs))))"
proof (intro conjI impI)
  show "multi_output_transform_x_y cast X (Arr1 ys) = Inl IndexError"
    by (simp add: multi_output_transform_x_y_def tuple_index_def)
next
  assume "length (shape_of X) = 2"
  then obtain n f where "shape_of X = [n, f]"
    by (cases "shape_of X"; cases "tl (shape_of X)") auto
  then obtain X' where "multi_output_transformer_x cast X 1 = Inr X'"
    using transformer_x_succeeds [of X n f 1 cast] by auto
  then show "\<exists>X'. multi_output_transform_x_y cast X (Arr2 1 rs)
      = Inr (X', Arr1 (map (\<lambda>r. r ! 0) rs))"
    by (simp add: transform_x_y_Arr2)
qed

text \<open>
  C10 at a target of two elements, as a vector and as a column.
\<close>

theorem one_dimensional_target_rejected_witness:
  "multi_output_transform_x_y float64_of_int (Dense (Arr2 1 [[1], [2]])) (Arr1 [10, 20 :: int])
     = Inl IndexError
   \<and> length (shape_of (Dense (Arr2 1 [[1], [2 :: int]]))) = 2
   \<and> (\<exists>X'. multi_output_transform_x_y float64_of_int (Dense (Arr2 1 [[1], [2]]))
               (Arr2 1 [[10], [20 :: int]])
              = Inr (X', Arr1 (map (\<lambda>r. r ! 0) [[10], [20]])))"
proof -
  note c = one_dimensional_target_rejected
    [of float64_of_int "Dense (Arr2 1 [[1], [2 :: int]])" "[10, 20 :: int]" "[[10], [20 :: int]]"]
  have h: "length (shape_of (Dense (Arr2 1 [[1], [2 :: int]]))) = 2" by simp
  show ?thesis
    by (rule conjI [OF conjunct1 [OF c] conjI [OF h mp [OF conjunct2 [OF c] h]]])
qed

end
